theory Spec2Isabelle
  imports Complex_Main "HOL-Library.Sublist"
begin

section \<open>Python values used by both modules\<close>

text \<open>
  Exceptions are values. Every operation of the manager returns its outcome together with
  the manager as the operation left it: a Python exception does not undo the assignments
  and the subprocess calls made before it was raised.
\<close>

datatype py_error =
    ValueError string
  | KeyError string
  | FileNotFoundError
  | CalledProcessError int string string
  | OSError string

text \<open>What the operating system answers when asked to run a program.\<close>

datatype proc_outcome = NotFound | Exited int string string

text \<open>\<^verbatim>\<open>sub in s\<close> on Python strings.\<close>

fun is_substring :: "string \<Rightarrow> string \<Rightarrow> bool" where
  "is_substring p [] = (p = [])"
| "is_substring p (c # cs) = (prefix p (c # cs) \<or> is_substring p cs)"

text \<open>\<^verbatim>\<open>str.lower\<close>, on the ASCII letters (bytes outside A-Z are left as they are).\<close>

definition lower_char :: "char \<Rightarrow> char" where
  "lower_char c =
     (let n = (of_char c :: nat)
      in if 65 \<le> n \<and> n \<le> 90 then char_of (n + 32) else c)"

definition lower :: "string \<Rightarrow> string" where
  "lower s = map lower_char s"

text \<open>\<^verbatim>\<open>s.replace(' ', '-')\<close>.\<close>

definition replace_spaces :: "string \<Rightarrow> string" where
  "replace_spaces s = map (\<lambda>c. if c = CHR '' '' then CHR ''-'' else c) s"

text \<open>\<^verbatim>\<open>str.strip()\<close>: ASCII white space removed at both ends.\<close>

definition is_space :: "char \<Rightarrow> bool" where
  "is_space c = ((of_char c :: nat) \<in> {9, 10, 11, 12, 13, 28, 29, 30, 31, 32})"

definition strip :: "string \<Rightarrow> string" where
  "strip s = rev (dropWhile is_space (rev (dropWhile is_space s)))"

text \<open>\<^verbatim>\<open>sep.join(xs)\<close>.\<close>

fun join :: "string \<Rightarrow> string list \<Rightarrow> string" where
  "join sep [] = []"
| "join sep [x] = x"
| "join sep (x # y # ys) = x @ sep @ join sep (y # ys)"




section \<open>The workflow engine (workflow-engine.py)\<close>

subsection \<open>Configuration, environment and manager state\<close>

text \<open>
  The options of \<^verbatim>\<open>agent-config.yaml\<close> that the engine reads. The file itself is not part
  of the sources, so the configuration is a parameter of every operation.
\<close>

record config =
  protected_branches :: "string list"
  branch_strategy :: "(string \<times> string) list"
  commit_format :: string
  default_branch :: string
  remote_url :: string
  draft_by_default :: bool

text \<open>
  The collaborators outside the program, over an arbitrary type \<open>'w\<close> of states of the
  outside world: running a program (working directory, argument vector), the clock read
  through \<^verbatim>\<open>strftime('%Y%m%d-%H%M%S')\<close>, \<^verbatim>\<open>Path.exists\<close>, the MD5 digest of a file
  (empty when the file is missing), \<^verbatim>\<open>str.format\<close> with keyword arguments, and writing
  the hashes to \<^verbatim>\<open>.file_hashes.json\<close>, which may raise.
\<close>

record 'w env =
  exec :: "string option \<Rightarrow> string list \<Rightarrow> 'w \<Rightarrow> proc_outcome \<times> 'w"
  clock :: "'w \<Rightarrow> string"
  path_exists :: "string \<Rightarrow> 'w \<Rightarrow> bool"
  file_digest :: "string \<Rightarrow> 'w \<Rightarrow> string"
  format :: "string \<Rightarrow> (string \<times> string) list \<Rightarrow> py_error + string"
  save_hashes :: "(string \<rightharpoonup> string) \<Rightarrow> 'w \<Rightarrow> py_error option \<times> 'w"

text \<open>
  An entry of the history: the value of \<^verbatim>\<open>self.current_branch\<close> at the moment a
  subprocess was started, and its argument vector.
\<close>

type_synonym event = "string option \<times> string list"

record 'w manager =
  repo_path :: "string option"
  current_branch :: "string option"
  world :: 'w
  history :: "event list"

text \<open>\<^verbatim>\<open>__init__\<close>: both fields start as \<^verbatim>\<open>None\<close>.\<close>

definition init_manager :: "'w \<Rightarrow> 'w manager" where
  "init_manager w = \<lparr>repo_path = None, current_branch = None, world = w, history = []\<rparr>"

text \<open>\<^verbatim>\<open>_validate_configuration\<close>, on the value of \<^verbatim>\<open>safeguards.prevent_main_commit\<close>.\<close>

definition validate_configuration :: "bool \<Rightarrow> py_error + unit" where
  "validate_configuration prevent_main_commit =
     (if \<not> prevent_main_commit
      then Inl (ValueError ''CRITICAL: Main branch protection must be enabled!'')
      else Inr ())"

subsection \<open>Subprocesses\<close>

text \<open>
  \<^verbatim>\<open>subprocess.run(argv, cwd=cwd, check=check)\<close>: a missing executable raises
  \<^verbatim>\<open>FileNotFoundError\<close>; with \<^verbatim>\<open>check\<close>, a non-zero exit raises \<^verbatim>\<open>CalledProcessError\<close>.
\<close>

definition subprocess_run ::
  "'w env \<Rightarrow> string list \<Rightarrow> string option \<Rightarrow> bool \<Rightarrow> 'w manager
     \<Rightarrow> (py_error + int \<times> string \<times> string) \<times> 'w manager" where
  "subprocess_run env argv cwd check m =
     (case exec env cwd argv (world m) of (outcome, w') \<Rightarrow>
        (let m' = m\<lparr>world := w', history := history m @ [(current_branch m, argv)]\<rparr>
         in case outcome of
              NotFound \<Rightarrow> (Inl FileNotFoundError, m')
            | Exited rc out err \<Rightarrow>
                if check \<and> rc \<noteq> 0 then (Inl (CalledProcessError rc out err), m')
                else (Inr (rc, out, err), m')))"

text \<open>\<^verbatim>\<open>_run_git_command\<close>: a failed git command is logged and its exit code returned.\<close>

definition run_git_command ::
  "'w env \<Rightarrow> string list \<Rightarrow> bool \<Rightarrow> 'w manager
     \<Rightarrow> (py_error + int \<times> string \<times> string) \<times> 'w manager" where
  "run_git_command env command check m =
     (case subprocess_run env (''git'' # command) (repo_path m) check m of
        (Inl (CalledProcessError rc out err), m') \<Rightarrow> (Inr (rc, out, err), m')
      | (Inl e, m') \<Rightarrow> (Inl e, m')
      | (Inr r, m') \<Rightarrow> (Inr r, m'))"

subsection \<open>Operations\<close>

definition ensure_not_on_main ::
  "'w env \<Rightarrow> config \<Rightarrow> 'w manager \<Rightarrow> (py_error + unit) \<times> 'w manager" where
  "ensure_not_on_main env cfg m =
     (case run_git_command env [''branch'', ''--show-current''] True m of
        (Inl e, m1) \<Rightarrow> (Inl e, m1)
      | (Inr (rc, out, err), m1) \<Rightarrow>
          (let current = strip out in
           if current \<in> set (protected_branches cfg) then
             (let safe_branch = ''work/'' @ clock env (world m1) in
              case run_git_command env [''checkout'', ''-b'', safe_branch] True m1 of
                (Inl e, m2) \<Rightarrow> (Inl e, m2)
              | (Inr r, m2) \<Rightarrow> (Inr (), m2))
           else (Inr (), m1)))"

definition initialize_repository ::
  "'w env \<Rightarrow> config \<Rightarrow> string \<Rightarrow> 'w manager \<Rightarrow> (py_error + unit) \<times> 'w manager" where
  "initialize_repository env cfg path m =
     (let m0 = m\<lparr>repo_path := Some path\<rparr> in
      if \<not> path_exists env path (world m0) then
        (case subprocess_run env [''git'', ''clone'', remote_url cfg, path] None True m0 of
           (Inl e, m1) \<Rightarrow> (Inl e, m1)
         | (Inr r, m1) \<Rightarrow> ensure_not_on_main env cfg m1)
      else ensure_not_on_main env cfg m0)"

definition branch_pattern :: "config \<Rightarrow> string \<Rightarrow> string" where
  "branch_pattern cfg branch_type =
     (case map_of (branch_strategy cfg) (branch_type @ ''_pattern'') of
        Some p \<Rightarrow> p
      | None \<Rightarrow> ''feature/{timestamp}-{description}'')"

definition create_feature_branch ::
  "'w env \<Rightarrow> config \<Rightarrow> string \<Rightarrow> string \<Rightarrow> 'w manager \<Rightarrow> (py_error + string) \<times> 'w manager" where
  "create_feature_branch env cfg branch_type description m =
     (let timestamp = clock env (world m);
          pattern = branch_pattern cfg branch_type
      in case format env pattern
                [(''timestamp'', timestamp),
                 (''description'', replace_spaces (lower description))] of
           Inl e \<Rightarrow> (Inl e, m)
         | Inr branch_name \<Rightarrow>
             (case run_git_command env [''fetch'', ''origin''] True m of
                (Inl e, m1) \<Rightarrow> (Inl e, m1)
              | (Inr r1, m1) \<Rightarrow>
                  (case run_git_command env
                          [''checkout'', ''-b'', branch_name, ''origin/main''] True m1 of
                     (Inl e, m2) \<Rightarrow> (Inl e, m2)
                   | (Inr r2, m2) \<Rightarrow>
                       (Inr branch_name, m2\<lparr>current_branch := Some branch_name\<rparr>))))"

text \<open>The staging loop of \<^verbatim>\<open>commit_changes\<close>.\<close>

fun stage_files ::
  "'w env \<Rightarrow> string list \<Rightarrow> 'w manager \<Rightarrow> (py_error + unit) \<times> 'w manager" where
  "stage_files env [] m = (Inr (), m)"
| "stage_files env (file # files) m =
     (case run_git_command env [''add'', file] True m of
        (Inl e, m') \<Rightarrow> (Inl e, m')
      | (Inr r, m') \<Rightarrow> stage_files env files m')"

text \<open>
  \<^verbatim>\<open>commit_changes\<close>, with the guard it runs first as a parameter, so that the same body can
  be read with the guard replaced by one that does nothing.
\<close>

definition commit_changes_with ::
  "('w manager \<Rightarrow> (py_error + unit) \<times> 'w manager) \<Rightarrow> 'w env \<Rightarrow> config
     \<Rightarrow> string list \<Rightarrow> string \<Rightarrow> string \<Rightarrow> string \<Rightarrow> 'w manager
     \<Rightarrow> (py_error + unit) \<times> 'w manager" where
  "commit_changes_with guard env cfg files commit_type scope description m =
     (case guard m of
        (Inl e, m1) \<Rightarrow> (Inl e, m1)
      | (Inr u, m1) \<Rightarrow>
          (case stage_files env files m1 of
             (Inl e, m2) \<Rightarrow> (Inl e, m2)
           | (Inr u', m2) \<Rightarrow>
               (case format env (commit_format cfg)
                       [(''type'', commit_type), (''scope'', scope),
                        (''description'', description)] of
                  Inl e \<Rightarrow> (Inl e, m2)
                | Inr commit_message \<Rightarrow>
                    (case run_git_command env [''commit'', ''-m'', commit_message] True m2 of
                       (Inl e, m3) \<Rightarrow> (Inl e, m3)
                     | (Inr r, m3) \<Rightarrow> (Inr (), m3)))))"

definition commit_changes ::
  "'w env \<Rightarrow> config \<Rightarrow> string list \<Rightarrow> string \<Rightarrow> string \<Rightarrow> string \<Rightarrow> 'w manager
     \<Rightarrow> (py_error + unit) \<times> 'w manager" where
  "commit_changes env cfg = commit_changes_with (ensure_not_on_main env cfg) env cfg"

text \<open>The guard replaced by a stub that does nothing.\<close>

definition no_guard :: "'w manager \<Rightarrow> (py_error + unit) \<times> 'w manager" where
  "no_guard m = (Inr (), m)"

definition push_branch ::
  "'w env \<Rightarrow> config \<Rightarrow> bool \<Rightarrow> 'w manager \<Rightarrow> (py_error + unit) \<times> 'w manager" where
  "push_branch env cfg set_upstream m =
     (case current_branch m of
        None \<Rightarrow> (Inl (ValueError ''No current branch set''), m)
      | Some b \<Rightarrow>
          if b = [] then (Inl (ValueError ''No current branch set''), m)
          else if b \<in> set (protected_branches cfg) then
            (Inl (ValueError (''BLOCKED: Cannot push to protected branch '' @ [CHR 0x27] @ b
                                @ [CHR 0x27])), m)
          else
            (let push_cmd = (if set_upstream then [''push'', ''-u'', ''origin'', b]
                             else [''push'', ''origin''])
             in case run_git_command env push_cmd True m of
                  (Inl e, m') \<Rightarrow> (Inl e, m')
                | (Inr r, m') \<Rightarrow> (Inr (), m')))"

definition create_pull_request ::
  "'w env \<Rightarrow> config \<Rightarrow> string \<Rightarrow> string \<Rightarrow> string list option \<Rightarrow> 'w manager
     \<Rightarrow> (py_error + string option) \<times> 'w manager" where
  "create_pull_request env cfg title body labels m =
     (case subprocess_run env [''gh'', ''--version''] None True m of
        (Inl (CalledProcessError rc out err), m1) \<Rightarrow> (Inr None, m1)
      | (Inl FileNotFoundError, m1) \<Rightarrow> (Inr None, m1)
      | (Inl e, m1) \<Rightarrow> (Inl e, m1)
      | (Inr r, m1) \<Rightarrow>
          (let pr_cmd = [''gh'', ''pr'', ''create'', ''--title'', title, ''--body'', body,
                         ''--base'', default_branch cfg]
                 @ (case labels of
                      None \<Rightarrow> []
                    | Some ls \<Rightarrow> if ls = [] then [] else [''--label'', join '','' ls])
                 @ (if draft_by_default cfg then [''--draft''] else [])
           in case subprocess_run env pr_cmd (repo_path m1) False m1 of
                (Inl e, m2) \<Rightarrow> (Inl e, m2)
              | (Inr (rc, out, err), m2) \<Rightarrow>
                  if rc = 0 then (Inr (Some (strip out)), m2) else (Inr None, m2)))"

definition determine_scope :: "string list \<Rightarrow> string" where
  "determine_scope files =
     (if list_ex (\<lambda>f. is_substring ''doc'' (lower f)) files then ''docs''
      else if list_ex (\<lambda>f. is_substring ''config'' (lower f) \<or> is_substring ''.yaml'' f
                          \<or> is_substring ''.json'' f) files then ''config''
      else if list_ex (\<lambda>f. is_substring ''script'' (lower f) \<or> is_substring ''.sh'' f
                          \<or> is_substring ''.py'' f) files then ''scripts''
      else ''core'')"

definition nl :: string where
  "nl = [CHR 0x0A]"

definition str_branch :: "string option \<Rightarrow> string" where
  "str_branch b = (case b of None \<Rightarrow> ''None'' | Some n \<Rightarrow> n)"

definition generate_pr_body :: "string \<Rightarrow> string list \<Rightarrow> string \<Rightarrow> 'w manager \<Rightarrow> string" where
  "generate_pr_body update_type files description m =
     ''## Summary'' @ nl @ description @ nl @ nl
     @ ''## Type of Change'' @ nl
     @ ''- Update Type: '' @ update_type @ nl
     @ ''- Branch: '' @ str_branch (current_branch m) @ nl @ nl
     @ ''## Files Changed'' @ nl
     @ concat (map (\<lambda>file. ''- '' @ file @ nl) files)
     @ nl @ ''## Checklist'' @ nl
     @ ''- [x] Changes follow branch-based workflow'' @ nl
     @ ''- [x] Commits follow conventional format'' @ nl
     @ ''- [x] No direct commits to main branch'' @ nl
     @ ''- [ ] Tests pass (if applicable)'' @ nl
     @ ''- [ ] Documentation updated (if needed)'' @ nl @ nl
     @ ''---'' @ nl
     @ ''*This PR was created automatically by the GitHub Repository Manager*'' @ nl"

definition branch_type_map :: "string \<Rightarrow> string" where
  "branch_type_map update_type =
     (if update_type = ''feature'' then ''feature''
      else if update_type = ''documentation'' then ''docs''
      else if update_type = ''bugfix'' then ''fix''
      else if update_type = ''configuration'' then ''config''
      else if update_type = ''maintenance'' then ''update''
      else ''feature'')"

record workflow_result =
  branch :: string
  commit_type :: string
  pr_url :: "string option"
  status :: string

text \<open>\<^verbatim>\<open>'success' if pr_url else 'failed'\<close>: \<^verbatim>\<open>None\<close> and the empty string are false.\<close>

definition status_of :: "string option \<Rightarrow> string" where
  "status_of url = (case url of None \<Rightarrow> ''failed'' | Some u \<Rightarrow> if u = [] then ''failed'' else ''success'')"

definition process_update_with ::
  "('w manager \<Rightarrow> (py_error + unit) \<times> 'w manager) \<Rightarrow> 'w env \<Rightarrow> config
     \<Rightarrow> string \<Rightarrow> string list \<Rightarrow> string \<Rightarrow> 'w manager
     \<Rightarrow> (py_error + workflow_result) \<times> 'w manager" where
  "process_update_with guard env cfg update_type files description m =
     (let branch_type = branch_type_map update_type in
      case create_feature_branch env cfg branch_type description m of
        (Inl e, m1) \<Rightarrow> (Inl e, m1)
      | (Inr branch_name, m1) \<Rightarrow>
          (let ctype = (if branch_type \<noteq> ''docs'' then branch_type else ''docs'');
               scope = determine_scope files
           in case commit_changes_with guard env cfg files ctype scope description m1 of
                (Inl e, m2) \<Rightarrow> (Inl e, m2)
              | (Inr u, m2) \<Rightarrow>
                  (case push_branch env cfg True m2 of
                     (Inl e, m3) \<Rightarrow> (Inl e, m3)
                   | (Inr u', m3) \<Rightarrow>
                       (let pr_title = ctype @ ''('' @ scope @ ''): '' @ description;
                            pr_body = generate_pr_body update_type files description m3;
                            labels = [branch_type, ''automated'']
                        in case create_pull_request env cfg pr_title pr_body (Some labels) m3 of
                             (Inl e, m4) \<Rightarrow> (Inl e, m4)
                           | (Inr url, m4) \<Rightarrow>
                               (Inr \<lparr>branch = branch_name, commit_type = ctype,
                                     pr_url = url, status = status_of url\<rparr>, m4)))))"

definition process_update ::
  "'w env \<Rightarrow> config \<Rightarrow> string \<Rightarrow> string list \<Rightarrow> string \<Rightarrow> 'w manager
     \<Rightarrow> (py_error + workflow_result) \<times> 'w manager" where
  "process_update env cfg = process_update_with (ensure_not_on_main env cfg) env cfg"

section \<open>The repository monitor (autonomous-agent.py)\<close>

subsection \<open>Paths\<close>

text \<open>
  \<^verbatim>\<open>pathlib.Path\<close> on POSIX: a root (empty, one slash, or two slashes when the string
  starts with exactly two) and the components, without empty and \<^verbatim>\<open>.\<close> components.
\<close>

type_synonym path = "string \<times> string list"

fun split_on :: "char \<Rightarrow> string \<Rightarrow> string list" where
  "split_on sep [] = [[]]"
| "split_on sep (c # cs) =
     (if c = sep then [] # split_on sep cs
      else (case split_on sep cs of [] \<Rightarrow> [[c]] | p # ps \<Rightarrow> (c # p) # ps))"

definition path_root :: "string \<Rightarrow> string" where
  "path_root s =
     (if prefix ''///'' s then ''/''
      else if prefix ''//'' s then ''//''
      else if prefix ''/'' s then ''/''
      else [])"

definition Path :: "string \<Rightarrow> path" where
  "Path s = (path_root s, filter (\<lambda>p. p \<noteq> [] \<and> p \<noteq> ''.'') (split_on (CHR ''/'') s))"

definition str_path :: "path \<Rightarrow> string" where
  "str_path p =
     (case p of (anchor, parts) \<Rightarrow>
        if anchor = [] \<and> parts = [] then ''.'' else anchor @ join ''/'' parts)"

definition relative_to :: "path \<Rightarrow> path \<Rightarrow> py_error + path" where
  "relative_to p base =
     (if fst p = fst base \<and> prefix (snd base) (snd p)
      then Inr ([], drop (length (snd base)) (snd p))
      else Inl (ValueError ''path is not in the subpath of base''))"

subsection \<open>Monitor state\<close>

record change_event =
  is_directory :: bool
  src_path :: string

text \<open>
  \<^verbatim>\<open>pending_changes\<close> is a dictionary in insertion order whose values are sets of relative
  paths; a set is kept as a list without repetitions (\<^verbatim>\<open>add\<close> is \<^const>\<open>List.insert\<close>), and
  \<^verbatim>\<open>list(files)\<close> is that list. \<^verbatim>\<open>emitted\<close> lists the update requests (category, paths,
  description) with which \<^verbatim>\<open>process_update\<close> has been called. Times are the numbers
  returned by \<^verbatim>\<open>time.time()\<close>, read as reals. The outside world is the one of the manager.
\<close>

record 'w monitor =
  mon_repo_path :: path
  mgr :: "'w manager"
  pending_changes :: "(string \<times> string list) list"
  last_process_time :: real
  process_delay :: real
  file_hashes :: "string \<rightharpoonup> string"
  emitted :: "(string \<times> string list \<times> string) list"

definition init_monitor :: "string \<Rightarrow> 'w manager \<Rightarrow> (string \<rightharpoonup> string) option \<Rightarrow> 'w monitor" where
  "init_monitor path manager disk =
     \<lparr>mon_repo_path = Path path, mgr = manager,
      pending_changes = [(''feature'', []), (''docs'', []), (''config'', []), (''fix'', [])],
      last_process_time = 0, process_delay = 30,
      file_hashes = (case disk of None \<Rightarrow> Map.empty | Some h \<Rightarrow> h),
      emitted = []\<rparr>"

subsection \<open>Classification and events\<close>

definition categorize_path_str :: "string \<Rightarrow> string" where
  "categorize_path_str path_str =
     (if list_ex (\<lambda>doc. is_substring doc path_str) [''readme'', ''doc'', ''.md'', ''license'']
      then ''docs''
      else if list_ex (\<lambda>cfg. is_substring cfg path_str)
                [''config'', ''.yaml'', ''.yml'', ''.json'', ''.ini'']
      then ''config''
      else if list_ex (\<lambda>script. is_substring script path_str) [''.sh'', ''.py'', ''script'']
      then ''feature''
      else ''feature'')"

definition categorize_file :: "path \<Rightarrow> path \<Rightarrow> py_error + string" where
  "categorize_file repo filepath =
     (case relative_to filepath repo of
        Inl e \<Rightarrow> Inl e
      | Inr rel_path \<Rightarrow> Inr (categorize_path_str (lower (str_path rel_path))))"

definition ignore_patterns :: "string list" where
  "ignore_patterns =
     [''.git/'', ''__pycache__/'', ''.pyc'', ''.log'', ''.tmp'',
      ''.swp'', ''.DS_Store'', ''node_modules/'', ''.env'']"

definition should_ignore_file :: "path \<Rightarrow> bool" where
  "should_ignore_file filepath =
     list_ex (\<lambda>pattern. is_substring pattern (str_path filepath)) ignore_patterns"

definition add_pending :: "string \<Rightarrow> string \<Rightarrow> (string \<times> string list) list \<Rightarrow> (string \<times> string list) list" where
  "add_pending category rel_path pending =
     map (\<lambda>(k, files). if k = category then (k, List.insert rel_path files) else (k, files)) pending"

definition on_modified ::
  "'w env \<Rightarrow> change_event \<Rightarrow> 'w monitor \<Rightarrow> (py_error + unit) \<times> 'w monitor" where
  "on_modified env event s =
     (if is_directory event then (Inr (), s)
      else
        (let filepath = Path (src_path event) in
         if should_ignore_file filepath then (Inr (), s)
         else
           (let new_hash = file_digest env (str_path filepath) (world (mgr s));
                old_hash = (case file_hashes s (str_path filepath) of None \<Rightarrow> [] | Some h \<Rightarrow> h)
            in if new_hash \<noteq> old_hash then
                 (let s1 = s\<lparr>file_hashes := (file_hashes s)(str_path filepath \<mapsto> new_hash)\<rparr> in
                  case categorize_file (mon_repo_path s1) filepath of
                    Inl e \<Rightarrow> (Inl e, s1)
                  | Inr category \<Rightarrow>
                      (case relative_to filepath (mon_repo_path s1) of
                         Inl e \<Rightarrow> (Inl e, s1)
                       | Inr rel_path \<Rightarrow>
                           (case map_of (pending_changes s1) category of
                              None \<Rightarrow> (Inl (KeyError category), s1)
                            | Some files \<Rightarrow>
                                (Inr (), s1\<lparr>pending_changes :=
                                    add_pending category (str_path rel_path) (pending_changes s1)\<rparr>))))
               else (Inr (), s))))"

definition on_created ::
  "'w env \<Rightarrow> change_event \<Rightarrow> 'w monitor \<Rightarrow> (py_error + unit) \<times> 'w monitor" where
  "on_created env event s = (if \<not> is_directory event then on_modified env event s else (Inr (), s))"

subsection \<open>Flushing\<close>






section \<open>A scripted double of the collaborators\<close>

text \<open>
  The theorems below hold for every environment. Closed instances need one: a small
  repository with a checked-out branch, local branches, files of the working copy, an
  index, commits, a remote that may be unreachable, a hosting CLI that may be missing and
  a hash file that may be read-only.
  It answers as git does on these points: \<^verbatim>\<open>checkout -b\<close> of an existing name fails,
  \<^verbatim>\<open>add\<close> of a missing path fails, \<^verbatim>\<open>commit\<close> with an empty index fails, \<^verbatim>\<open>fetch\<close> and
  \<^verbatim>\<open>push\<close> fail without network.
\<close>

record sim =
  sim_head :: string
  sim_branches :: "string list"
  sim_files :: "string list"
  sim_staged :: "string list"
  sim_commits :: "(string \<times> string) list"
  sim_pushed :: "string list"
  sim_online :: bool
  sim_gh :: bool
  sim_now :: string
  sim_saved :: "(string \<rightharpoonup> string) option"
  sim_writable :: bool

definition git_fail :: "sim \<Rightarrow> proc_outcome \<times> sim" where
  "git_fail w = (Exited 128 [] ''fatal'', w)"

fun sim_exec :: "string option \<Rightarrow> string list \<Rightarrow> sim \<Rightarrow> proc_outcome \<times> sim" where
  "sim_exec cwd [g, a] w =
     (if g = ''git'' then git_fail w
      else if g = ''gh'' \<and> a = ''--version'' \<and> sim_gh w then (Exited 0 ''gh version 2'' [], w)
      else (NotFound, w))"
| "sim_exec cwd [g, a, b] w =
     (if g \<noteq> ''git'' then (NotFound, w)
      else if a = ''branch'' \<and> b = ''--show-current'' then (Exited 0 (sim_head w @ [CHR 0x0A]) [], w)
      else if a = ''fetch'' then (if sim_online w then (Exited 0 [] [], w) else git_fail w)
      else if a = ''add'' then
        (if b \<in> set (sim_files w) then (Exited 0 [] [], w\<lparr>sim_staged := b # sim_staged w\<rparr>)
         else git_fail w)
      else if a = ''push'' then
        (if sim_online w then (Exited 0 [] [], w\<lparr>sim_pushed := sim_head w # sim_pushed w\<rparr>)
         else git_fail w)
      else git_fail w)"
| "sim_exec cwd [g, a, b, c] w =
     (if g \<noteq> ''git'' then (NotFound, w)
      else if a = ''checkout'' \<and> b = ''-b'' then
        (if c \<in> set (sim_branches w) then git_fail w
         else (Exited 0 [] [], w\<lparr>sim_head := c, sim_branches := c # sim_branches w\<rparr>))
      else if a = ''commit'' \<and> b = ''-m'' then
        (if sim_staged w = [] then (Exited 1 ''nothing to commit'' [], w)
         else (Exited 0 [] [], w\<lparr>sim_commits := (sim_head w, c) # sim_commits w, sim_staged := []\<rparr>))
      else git_fail w)"
| "sim_exec cwd [g, a, b, c, d] w =
     (if g \<noteq> ''git'' then (NotFound, w)
      else if a = ''checkout'' \<and> b = ''-b'' then
        (if c \<in> set (sim_branches w) then git_fail w
         else (Exited 0 [] [], w\<lparr>sim_head := c, sim_branches := c # sim_branches w\<rparr>))
      else if a = ''push'' \<and> b = ''-u'' then
        (if sim_online w \<and> d \<in> set (sim_branches w)
         then (Exited 0 [] [], w\<lparr>sim_pushed := d # sim_pushed w\<rparr>)
         else git_fail w)
      else git_fail w)"
| "sim_exec cwd argv w =
     (case argv of
        [] \<Rightarrow> (NotFound, w)
      | g # rest \<Rightarrow>
          if g = ''git'' then git_fail w
          else if g = ''gh'' \<and> sim_gh w then (Exited 0 ''https://example.org/pull/1'' [], w)
          else (NotFound, w))"

text \<open>
  \<^verbatim>\<open>str.format\<close> for templates made of literal text and plain named fields
  \<^verbatim>\<open>{name}\<close>: an unknown name is a \<^verbatim>\<open>KeyError\<close>, an unbalanced brace a \<^verbatim>\<open>ValueError\<close>.
\<close>

fun format_scan :: "(string \<times> string) list \<Rightarrow> string option \<Rightarrow> string \<Rightarrow> py_error + string" where
  "format_scan kw None [] = Inr []"
| "format_scan kw (Some field) [] = Inl (ValueError ''expected } before end of string'')"
| "format_scan kw None (c # cs) =
     (if c = CHR ''{'' then format_scan kw (Some []) cs
      else if c = CHR ''}'' then Inl (ValueError ''Single } encountered in format string'')
      else (case format_scan kw None cs of Inl e \<Rightarrow> Inl e | Inr r \<Rightarrow> Inr (c # r)))"
| "format_scan kw (Some field) (c # cs) =
     (if c = CHR ''}'' then
        (case map_of kw field of
           None \<Rightarrow> Inl (KeyError field)
         | Some v \<Rightarrow> (case format_scan kw None cs of Inl e \<Rightarrow> Inl e | Inr r \<Rightarrow> Inr (v @ r)))
      else format_scan kw (Some (field @ [c])) cs)"

definition plain_format :: "string \<Rightarrow> (string \<times> string) list \<Rightarrow> py_error + string" where
  "plain_format template kw = format_scan kw None template"

definition sim_env :: "sim env" where
  "sim_env = \<lparr>exec = sim_exec, clock = sim_now,
              path_exists = (\<lambda>p w. True),
              file_digest = (\<lambda>p w. if p \<in> set (sim_files w) then ''d41d8cd9'' @ p else []),
              format = plain_format,
              save_hashes = (\<lambda>hashes w.
                 if sim_writable w then (None, w\<lparr>sim_saved := Some hashes\<rparr>)
                 else (Some (OSError ''Permission denied''), w))\<rparr>"

text \<open>A clone of the repository, checked out on \<^verbatim>\<open>main\<close>.\<close>

definition sim_repo :: sim where
  "sim_repo = \<lparr>sim_head = ''main'', sim_branches = [''main''],
               sim_files = [''README.md'', ''setup.sh''], sim_staged = [],
               sim_commits = [], sim_pushed = [], sim_online = True, sim_gh = True,
               sim_now = ''20240101-120000'', sim_saved = None, sim_writable = True\<rparr>"

definition sim_config :: config where
  "sim_config = \<lparr>protected_branches = [''main'', ''master''],
                 branch_strategy = [(''docs_pattern'', ''docs/{timestamp}-{description}'')],
                 commit_format = ''{type}({scope}): {description}'',
                 default_branch = ''main'',
                 remote_url = ''https://example.org/repo.git'',
                 draft_by_default = False\<rparr>"

section \<open>Vocabulary of the properties\<close>

text \<open>The git executable is installed: starting it never fails to find the program.\<close>

definition git_present :: "'w env \<Rightarrow> bool" where
  "git_present env \<longleftrightarrow> (\<forall>cwd command w. fst (exec env cwd (''git'' # command) w) \<noteq> NotFound)"

text \<open>The manager after one git command: the world has moved and the history has grown.\<close>

definition git_step :: "'w env \<Rightarrow> string list \<Rightarrow> 'w manager \<Rightarrow> 'w manager" where
  "git_step env command m =
     m\<lparr>world := snd (exec env (repo_path m) (''git'' # command) (world m)),
       history := history m @ [(current_branch m, ''git'' # command)]\<rparr>"

text \<open>The two mutating git commands, and a branch name that is set and protected.\<close>

definition is_push :: "string list \<Rightarrow> bool" where
  "is_push argv = (take 2 argv = [''git'', ''push''])"

definition is_commit :: "string list \<Rightarrow> bool" where
  "is_commit argv = (take 2 argv = [''git'', ''commit''])"

definition is_protected :: "config \<Rightarrow> string option \<Rightarrow> bool" where
  "is_protected cfg b = (case b of None \<Rightarrow> False | Some n \<Rightarrow> n \<in> set (protected_branches cfg))"

text \<open>The subprocesses started between two states of the manager.\<close>

definition issued :: "'w manager \<Rightarrow> 'w manager \<Rightarrow> event list" where
  "issued m m' = drop (length (history m)) (history m')"

text \<open>
  The history of \<open>m'\<close> is the history of \<open>m\<close> followed by subprocesses that all satisfy
  \<open>P\<close>.
\<close>

definition grows :: "(event \<Rightarrow> bool) \<Rightarrow> 'w manager \<Rightarrow> 'w manager \<Rightarrow> bool" where
  "grows P m m' \<longleftrightarrow> (\<exists>evs. history m' = history m @ evs \<and> list_all P evs)"

text \<open>
  A subprocess started under the branch name \<open>m\<close> records that is neither a push nor a
  commit; a guard that starts only such subprocesses and leaves the recorded name alone;
  a subprocess under that name that is not a push.
\<close>

definition quiet :: "'w manager \<Rightarrow> event \<Rightarrow> bool" where
  "quiet m ev \<longleftrightarrow> fst ev = current_branch m \<and> \<not> is_push (snd ev) \<and> \<not> is_commit (snd ev)"

definition quiet_guard :: "('w manager \<Rightarrow> (py_error + unit) \<times> 'w manager) \<Rightarrow> bool" where
  "quiet_guard g \<longleftrightarrow>
     (\<forall>m. current_branch (snd (g m)) = current_branch m \<and> grows (quiet m) m (snd (g m)))"

definition no_push :: "'w manager \<Rightarrow> event \<Rightarrow> bool" where
  "no_push m ev \<longleftrightarrow> fst ev = current_branch m \<and> \<not> is_push (snd ev)"

text \<open>The manager after one subprocess started with \<^verbatim>\<open>subprocess.run\<close> directly.\<close>

definition proc_step :: "'w env \<Rightarrow> string option \<Rightarrow> string list \<Rightarrow> 'w manager \<Rightarrow> 'w manager" where
  "proc_step env cwd argv m =
     m\<lparr>world := snd (exec env cwd argv (world m)),
       history := history m @ [(current_branch m, argv)]\<rparr>"

text \<open>
  What the properties ask of a subprocess: a push is started only under a branch name that
  is set and not protected; a commit is started under the name \<open>named\<close> built from the
  naming template.
\<close>

definition mutation_ok :: "config \<Rightarrow> py_error + string \<Rightarrow> event \<Rightarrow> bool" where
  "mutation_ok cfg named ev \<longleftrightarrow>
     (is_push (snd ev) \<longrightarrow> fst ev \<noteq> None \<and> \<not> is_protected cfg (fst ev))
     \<and> (is_commit (snd ev) \<longrightarrow> (\<exists>n. named = Inr n \<and> fst ev = Some n))"

text \<open>A configuration whose feature branches are named by the description alone.\<close>

definition named_config :: config where
  "named_config = sim_config\<lparr>branch_strategy := [(''feature_pattern'', ''{description}'')]\<rparr>"

text \<open>The hosting CLI is not installed.\<close>

definition gh_absent :: "'w env \<Rightarrow> bool" where
  "gh_absent env \<longleftrightarrow> (\<forall>cwd w. fst (exec env cwd [''gh'', ''--version''] w) = NotFound)"

text \<open>The scripted double on a machine without the hosting CLI.\<close>

definition bare_env :: "sim env" where
  "bare_env = sim_env\<lparr>exec := (\<lambda>cwd argv w. sim_exec cwd argv (w\<lparr>sim_gh := False\<rparr>))\<rparr>"



definition cleared :: "string set \<Rightarrow> (string \<times> string list) list \<Rightarrow> (string \<times> string list) list" where
  "cleared ks pending = map (\<lambda>(k, fs). if k \<in> ks then (k, []) else (k, fs)) pending"


text \<open>A monitor with pending changes in two of its four categories, last flushed at 100.\<close>

definition busy_monitor :: "sim monitor" where
  "busy_monitor =
     (init_monitor ''/repo'' ((init_manager sim_repo)\<lparr>repo_path := Some ''/repo''\<rparr>) None)
       \<lparr>pending_changes := [(''feature'', [''c.txt'']), (''docs'', []),
                            (''config'', [''b.json'', ''a.yaml'']), (''fix'', [])],
        last_process_time := 100\<rparr>"




section \<open>Properties of the workflow engine\<close>

text \<open>
  C10. \<^verbatim>\<open>push_branch\<close> called while \<^verbatim>\<open>current_branch\<close> is still unset raises
  \<^verbatim>\<open>ValueError("No current branch set")\<close>; no subprocess is started and the manager
  (repository handle, world and history) is exactly as before.
\<close>

theorem push_branch_unset:
  "current_branch m = None \<Longrightarrow>
     push_branch env cfg set_upstream m = (Inl (ValueError ''No current branch set''), m)"
  by (simp add: push_branch_def)

theorem push_branch_unset_witness:
  "current_branch (init_manager sim_repo) = None \<and>
   push_branch sim_env sim_config True (init_manager sim_repo)
     = (Inl (ValueError ''No current branch set''), init_manager sim_repo)"
  using push_branch_unset [of "init_manager sim_repo" sim_env sim_config True]
  by (simp add: init_manager_def)

subsection \<open>Subprocess steps\<close>

lemma run_git_command_snd: "snd (run_git_command env command check m) = git_step env command m"
  by (simp add: run_git_command_def git_step_def subprocess_run_def Let_def
           split: prod.splits proc_outcome.splits sum.splits py_error.splits)

lemma run_git_command_fst:
  "fst (run_git_command env command check m) =
     (case fst (exec env (repo_path m) (''git'' # command) (world m)) of
        NotFound \<Rightarrow> Inl FileNotFoundError
      | Exited rc out err \<Rightarrow> Inr (rc, out, err))"
  by (simp add: run_git_command_def subprocess_run_def Let_def
           split: prod.splits proc_outcome.splits sum.splits py_error.splits)

lemma run_git_command_eq:
  "run_git_command env command check m =
     ((case fst (exec env (repo_path m) (''git'' # command) (world m)) of
        NotFound \<Rightarrow> Inl FileNotFoundError
      | Exited rc out err \<Rightarrow> Inr (rc, out, err)), git_step env command m)"
  by (metis prod.collapse run_git_command_fst run_git_command_snd)

lemma git_present_sim: "git_present sim_env"
  unfolding git_present_def sim_env_def
  apply (intro allI)
  subgoal for cwd command w
    apply (cases command; simp add: git_fail_def)
    subgoal for a l1
      apply (cases l1; simp add: git_fail_def)
      subgoal for b l2
        apply (cases l2; simp add: git_fail_def)
        subgoal for c l3
          apply (cases l3; simp add: git_fail_def)
          subgoal for d l4
            by (cases l4; simp add: git_fail_def)
          done
        done
      done
    done
  done

subsection \<open>Growth of the history\<close>

lemma grows_refl: "grows P m m"
  by (simp add: grows_def)

lemma grows_trans: "grows P m m1 \<Longrightarrow> grows P m1 m2 \<Longrightarrow> grows P m m2"
  by (auto simp: grows_def)

lemma grows_mono: "grows P m m' \<Longrightarrow> (\<And>ev. P ev \<Longrightarrow> Q ev) \<Longrightarrow> grows Q m m'"
  by (auto simp: grows_def list_all_iff)

lemma grows_update [simp]: "grows P m (m'\<lparr>current_branch := b\<rparr>) = grows P m m'"
  by (simp add: grows_def)

lemma git_step_simps [simp]:
  "current_branch (git_step env c m) = current_branch m"
  "repo_path (git_step env c m) = repo_path m"
  "history (git_step env c m) = history m @ [(current_branch m, ''git'' # c)]"
  by (simp_all add: git_step_def)

lemma grows_git_step: "P (current_branch m, ''git'' # c) \<Longrightarrow> grows P m (git_step env c m)"
  by (simp add: grows_def)

lemma grows_step_then:
  "P (current_branch m, ''git'' # c) \<Longrightarrow> grows P (git_step env c m) m' \<Longrightarrow> grows P m m'"
  using grows_trans [of P m "git_step env c m" m'] grows_git_step [of P m c env] by blast

lemma ensure_current_branch:
  "current_branch (snd (ensure_not_on_main env cfg m)) = current_branch m"
  by (simp add: ensure_not_on_main_def run_git_command_eq Let_def split: proc_outcome.splits)

lemma ensure_grows: "grows (quiet m) m (snd (ensure_not_on_main env cfg m))"
  by (auto simp: ensure_not_on_main_def run_git_command_eq Let_def quiet_def is_push_def is_commit_def
        grows_def split: proc_outcome.splits)

lemma quiet_guard_ensure: "quiet_guard (ensure_not_on_main env cfg)"
  by (simp add: quiet_guard_def ensure_current_branch ensure_grows)

lemma quiet_guard_none: "quiet_guard no_guard"
  by (simp add: quiet_guard_def no_guard_def grows_refl)

lemma stage_files_current_branch:
  "current_branch (snd (stage_files env files m)) = current_branch m"
  by (induction files arbitrary: m) (auto simp: run_git_command_eq split: proc_outcome.splits)

lemma quiet_git_step [simp]: "quiet (git_step env c m) = quiet m"
  by (simp add: quiet_def fun_eq_iff)

lemma stage_files_grows: "grows (quiet m) m (snd (stage_files env files m))"
proof (induction files arbitrary: m)
  case Nil
  show ?case by (simp add: grows_refl)
next
  case (Cons f fs)
  have q: "quiet m (current_branch m, ''git'' # [''add'', f])"
    by (simp add: quiet_def is_push_def is_commit_def)
  have "grows (quiet m) (git_step env [''add'', f] m)
          (snd (stage_files env fs (git_step env [''add'', f] m)))"
    using Cons.IH [of "git_step env [''add'', f] m"] by simp
  then have "grows (quiet m) m (snd (stage_files env fs (git_step env [''add'', f] m)))"
    using q grows_step_then [of "quiet m" m "[''add'', f]" env] by blast
  moreover have "grows (quiet m) m (git_step env [''add'', f] m)"
    using q grows_git_step [of "quiet m" m "[''add'', f]" env] by blast
  ultimately show ?case
    by (simp add: run_git_command_eq split: proc_outcome.splits)
qed

lemma quiet_cong: "current_branch m1 = current_branch m \<Longrightarrow> quiet m1 = quiet m"
  by (simp add: quiet_def fun_eq_iff)

lemma commit_changes_with_spec:
  assumes "quiet_guard g"
  shows "current_branch (snd (commit_changes_with g env cfg files ct sc d m)) = current_branch m
       \<and> grows (no_push m) m (snd (commit_changes_with g env cfg files ct sc d m))"
proof -
  obtain r1 m1 where g: "g m = (r1, m1)" by (cases "g m")
  have "current_branch (snd (g m)) = current_branch m \<and> grows (quiet m) m (snd (g m))"
    using assms by (simp add: quiet_guard_def)
  then have m1: "current_branch m1 = current_branch m" "grows (quiet m) m m1"
    using g by simp_all
  obtain r2 m2 where s: "stage_files env files m1 = (r2, m2)" by (cases "stage_files env files m1")
  have m2: "current_branch m2 = current_branch m" "grows (quiet m) m1 m2"
    using stage_files_current_branch [of env files m1] stage_files_grows [of m1 env files] s m1
      quiet_cong [of m1 m]
    by simp_all
  have g1: "grows (no_push m) m m1"
    using m1(2) by (rule grows_mono) (simp add: quiet_def no_push_def)
  have "grows (quiet m) m m2"
    using m1(2) m2(2) by (rule grows_trans)
  then have g2: "grows (no_push m) m m2"
    by (rule grows_mono) (simp add: quiet_def no_push_def)
  have g3: "grows (no_push m) m (git_step env [''commit'', ''-m'', msg] m2)" for msg
  proof -
    have "grows (no_push m) m2 (git_step env [''commit'', ''-m'', msg] m2)"
      using grows_git_step [of "no_push m" m2 "[''commit'', ''-m'', msg]" env] m2(1)
      by (simp add: no_push_def is_push_def)
    with g2 show ?thesis by (rule grows_trans)
  qed
  show ?thesis
    unfolding commit_changes_with_def using g s m1 m2 g1 g2 g3
    by (auto simp: run_git_command_eq split: sum.splits proc_outcome.splits)
qed

lemma push_branch_spec:
  "current_branch (snd (push_branch env cfg su m)) = current_branch m
   \<and> grows (\<lambda>ev. fst ev = current_branch m \<and> \<not> is_commit (snd ev) \<and> fst ev \<noteq> None
                 \<and> \<not> is_protected cfg (fst ev)) m (snd (push_branch env cfg su m))"
  by (auto simp: push_branch_def run_git_command_eq grows_def is_commit_def is_protected_def Let_def
           split: option.splits proc_outcome.splits)

lemma proc_step_simps [simp]:
  "current_branch (proc_step env cwd argv m) = current_branch m"
  "repo_path (proc_step env cwd argv m) = repo_path m"
  "history (proc_step env cwd argv m) = history m @ [(current_branch m, argv)]"
  by (simp_all add: proc_step_def)

lemma subprocess_run_eq:
  "subprocess_run env argv cwd check m =
     ((case fst (exec env cwd argv (world m)) of
         NotFound \<Rightarrow> Inl FileNotFoundError
       | Exited rc out err \<Rightarrow>
           if check \<and> rc \<noteq> 0 then Inl (CalledProcessError rc out err) else Inr (rc, out, err)),
      proc_step env cwd argv m)"
  by (auto simp: subprocess_run_def proc_step_def Let_def split: prod.splits proc_outcome.splits)

lemma create_pull_request_spec:
  "current_branch (snd (create_pull_request env cfg title body labels m)) = current_branch m
   \<and> grows (quiet m) m (snd (create_pull_request env cfg title body labels m))"
  by (simp add: create_pull_request_def subprocess_run_eq grows_def quiet_def is_push_def
                 is_commit_def Let_def
           split: proc_outcome.splits)

lemma create_feature_branch_spec:
  "grows (quiet m) m (snd (create_feature_branch env cfg bt d m))
   \<and> current_branch (snd (create_feature_branch env cfg bt d m))
       = (case fst (create_feature_branch env cfg bt d m) of
            Inr n \<Rightarrow> Some n | Inl e \<Rightarrow> current_branch m)"
  by (auto simp: create_feature_branch_def run_git_command_eq grows_def quiet_def is_push_def
                 is_commit_def Let_def
           split: sum.splits proc_outcome.splits)

lemma create_feature_branch_name:
  "fst (create_feature_branch env cfg bt d m) = Inr n \<Longrightarrow>
     format env (branch_pattern cfg bt)
       [(''timestamp'', clock env (world m)), (''description'', replace_spaces (lower d))] = Inr n"
  by (auto simp: create_feature_branch_def run_git_command_eq Let_def
           split: sum.splits proc_outcome.splits)

subsection \<open>The workflow as a whole\<close>

lemma process_update_with_spec:
  assumes qg: "quiet_guard g"
  shows "grows (mutation_ok cfg
                  (format env (branch_pattern cfg (branch_type_map ut))
                          [(''timestamp'', clock env (world m)),
                           (''description'', replace_spaces (lower d))]))
           m (snd (process_update_with g env cfg ut files d m))"
proof -
  let ?bt = "branch_type_map ut"
  let ?named = "format env (branch_pattern cfg ?bt)
                          [(''timestamp'', clock env (world m)),
                           (''description'', replace_spaces (lower d))]"
  let ?P = "mutation_ok cfg ?named"
  obtain r1 m1 where c1: "create_feature_branch env cfg ?bt d m = (r1, m1)"
    by (cases "create_feature_branch env cfg ?bt d m")
  have s1: "grows (quiet m) m m1"
    using create_feature_branch_spec [of m env cfg ?bt d] c1 by simp
  have g1: "grows ?P m m1"
    using s1 by (rule grows_mono) (simp add: quiet_def mutation_ok_def)
  show ?thesis
  proof (cases r1)
    case (Inl e)
    then show ?thesis
      using c1 g1 by (simp add: process_update_with_def Let_def)
  next
    case (Inr name)
    have nm: "?named = Inr name"
      using create_feature_branch_name [of env cfg ?bt d m name] c1 Inr by simp
    have cb1: "current_branch m1 = Some name"
      using create_feature_branch_spec [of m env cfg ?bt d] c1 Inr by simp
    let ?ct = "?bt"
    have ct: "(if ?bt \<noteq> ''docs'' then ?bt else ''docs'') = ?bt" by simp
    obtain r2 m2 where c2:
      "commit_changes_with g env cfg files ?ct (determine_scope files) d m1 = (r2, m2)"
      by (cases "commit_changes_with g env cfg files ?ct (determine_scope files) d m1")
    have s2: "current_branch m2 = Some name" "grows (no_push m1) m1 m2"
      using commit_changes_with_spec [OF qg, of env cfg files ?ct "determine_scope files" d m1]
        c2 cb1 by simp_all
    have "grows ?P m1 m2"
      using s2(2) by (rule grows_mono) (simp add: no_push_def mutation_ok_def cb1 nm)
    with g1 have g2: "grows ?P m m2" by (rule grows_trans)
    obtain r3 m3 where c3: "push_branch env cfg True m2 = (r3, m3)"
      by (cases "push_branch env cfg True m2")
    have s3: "current_branch m3 = Some name"
      "grows (\<lambda>ev. fst ev = current_branch m2 \<and> \<not> is_commit (snd ev) \<and> fst ev \<noteq> None
                 \<and> \<not> is_protected cfg (fst ev)) m2 m3"
      using push_branch_spec [of env cfg True m2] c3 s2(1) by simp_all
    have "grows ?P m2 m3"
      using s3(2) by (rule grows_mono) (auto simp: mutation_ok_def)
    with g2 have g3: "grows ?P m m3" by (rule grows_trans)
    have g4: "grows ?P m (snd (create_pull_request env cfg t b l m3))" for t b l
    proof -
      have "grows (quiet m3) m3 (snd (create_pull_request env cfg t b l m3))"
        using create_pull_request_spec [of env cfg t b l m3] by simp
      then have "grows ?P m3 (snd (create_pull_request env cfg t b l m3))"
        by (rule grows_mono) (simp add: quiet_def mutation_ok_def)
      with g3 show ?thesis by (rule grows_trans)
    qed
    have sndcase: "snd (case x of (Inl e, m4) \<Rightarrow> (Inl e, m4) | (Inr url, m4) \<Rightarrow> (Inr (f url), m4)) = snd x"
      for x :: "(py_error + string option) \<times> 'a manager" and f :: "string option \<Rightarrow> workflow_result"
      by (auto split: prod.splits sum.splits)
    show ?thesis
      unfolding process_update_with_def Let_def ct c1 Inr
      using g2 g3 g4
      by (cases r2; cases r3; simp add: c2 c3 sndcase)
  qed
qed

lemma issued_of_grows: "grows P m m' \<Longrightarrow> ev \<in> set (issued m m') \<Longrightarrow> P ev"
  by (auto simp: grows_def issued_def list_all_iff)

subsection \<open>Mutating operations and the protected branches\<close>

text \<open>
  C1, as the code has it. No push is ever started while \<^verbatim>\<open>current_branch\<close> is unset or
  protected, by \<^verbatim>\<open>push_branch\<close> alone or inside \<^verbatim>\<open>process_update\<close>. \<^verbatim>\<open>commit_changes\<close>
  never reads \<^verbatim>\<open>current_branch\<close> (its guard asks git for the checked-out branch): every
  subprocess it starts, the commit included, runs under the value \<^verbatim>\<open>current_branch\<close> had on
  entry, which inside \<^verbatim>\<open>process_update\<close> is the name built from the naming template. So a
  commit is kept off a protected \<^verbatim>\<open>current_branch\<close> exactly when that name is not protected.
\<close>

theorem mutations_guarded:
  "(\<forall>ev \<in> set (issued m (snd (push_branch env cfg su m))).
      fst ev \<noteq> None \<and> \<not> is_protected cfg (fst ev))
   \<and> (\<forall>ev \<in> set (issued m (snd (process_update env cfg ut files d m))).
      is_push (snd ev) \<longrightarrow> fst ev \<noteq> None \<and> \<not> is_protected cfg (fst ev))
   \<and> (\<forall>ev \<in> set (issued m (snd (commit_changes env cfg files ct sc d m))).
      \<not> is_push (snd ev) \<and> fst ev = current_branch m)
   \<and> (\<forall>ev \<in> set (issued m (snd (process_update env cfg ut files d m))).
      is_commit (snd ev) \<longrightarrow>
        (\<exists>n. format env (branch_pattern cfg (branch_type_map ut))
                [(''timestamp'', clock env (world m)),
                 (''description'', replace_spaces (lower d))] = Inr n
             \<and> fst ev = Some n))"
proof -
  have pu: "grows (mutation_ok cfg
                  (format env (branch_pattern cfg (branch_type_map ut))
                          [(''timestamp'', clock env (world m)),
                           (''description'', replace_spaces (lower d))]))
           m (snd (process_update env cfg ut files d m))"
    unfolding process_update_def by (rule process_update_with_spec [OF quiet_guard_ensure])
  have cc: "grows (no_push m) m (snd (commit_changes env cfg files ct sc d m))"
    unfolding commit_changes_def
    using commit_changes_with_spec [OF quiet_guard_ensure] by blast
  have pb: "grows (\<lambda>ev. fst ev = current_branch m \<and> \<not> is_commit (snd ev) \<and> fst ev \<noteq> None
                 \<and> \<not> is_protected cfg (fst ev)) m (snd (push_branch env cfg su m))"
    using push_branch_spec by blast
  show ?thesis
    using issued_of_grows [OF pu] issued_of_grows [OF cc] issued_of_grows [OF pb]
    by (auto simp: mutation_ok_def no_push_def)
qed

theorem mutations_guarded_witness:
  "(Some ''feature/20240101-120000-fix-the-readme'',
      [''git'', ''push'', ''-u'', ''origin'', ''feature/20240101-120000-fix-the-readme''])
     \<in> set (issued (init_manager sim_repo)
              (snd (process_update sim_env sim_config ''feature'' [''README.md'']
                      ''Fix The Readme'' (init_manager sim_repo))))
   \<and> is_push [''git'', ''push'', ''-u'', ''origin'', ''feature/20240101-120000-fix-the-readme'']
   \<and> \<not> is_protected sim_config (Some ''feature/20240101-120000-fix-the-readme'')"
proof -
  have mem: "(Some ''feature/20240101-120000-fix-the-readme'',
      [''git'', ''push'', ''-u'', ''origin'', ''feature/20240101-120000-fix-the-readme''])
     \<in> set (issued (init_manager sim_repo)
              (snd (process_update sim_env sim_config ''feature'' [''README.md'']
                      ''Fix The Readme'' (init_manager sim_repo))))"
    by code_simp
  have push: "is_push [''git'', ''push'', ''-u'', ''origin'', ''feature/20240101-120000-fix-the-readme'']"
    by (simp add: is_push_def)
  show ?thesis
    using mutations_guarded [where m = "init_manager sim_repo" and env = sim_env
        and cfg = sim_config and ut = "''feature''" and files = "[''README.md'']"
        and d = "''Fix The Readme''"] mem push
    by fastforce
qed

text \<open>
  The claim as stated fails: with the template \<^verbatim>\<open>{description}\<close> and the description
  \<^verbatim>\<open>Main\<close>, the commit is started while \<^verbatim>\<open>current_branch\<close> is \<^verbatim>\<open>main\<close>.
\<close>

theorem commit_under_protected_name_counterexample:
  "(Some ''main'', [''git'', ''commit'', ''-m'', ''feature(core): Main''])
     \<in> set (issued (init_manager sim_repo)
              (snd (process_update sim_env named_config ''feature'' [''README.md''] ''Main''
                      (init_manager sim_repo))))
   \<and> is_commit [''git'', ''commit'', ''-m'', ''feature(core): Main'']
   \<and> is_protected named_config (Some ''main'')"
  by code_simp

text \<open>
  C2, as the code has it. Inside \<^verbatim>\<open>process_update\<close>, with the guard in place or replaced by
  a stub that does nothing, no push is started while \<^verbatim>\<open>current_branch\<close> is unset or
  protected: the check inside \<^verbatim>\<open>push_branch\<close> is enough for pushes. It says nothing about
  the commit, which is started before \<^verbatim>\<open>push_branch\<close> runs, under the name built from
  the naming template.
\<close>

theorem push_check_alone:
  "(\<forall>ev \<in> set (issued m (snd (process_update_with no_guard env cfg ut files d m))).
      is_push (snd ev) \<longrightarrow> fst ev \<noteq> None \<and> \<not> is_protected cfg (fst ev))
   \<and> (\<forall>ev \<in> set (issued m (snd (process_update_with (ensure_not_on_main env cfg) env cfg ut files d m))).
      is_push (snd ev) \<longrightarrow> fst ev \<noteq> None \<and> \<not> is_protected cfg (fst ev))
   \<and> (\<forall>ev \<in> set (issued m (snd (process_update_with no_guard env cfg ut files d m))).
      is_commit (snd ev) \<longrightarrow>
        (\<exists>n. format env (branch_pattern cfg (branch_type_map ut))
                [(''timestamp'', clock env (world m)),
                 (''description'', replace_spaces (lower d))] = Inr n
             \<and> fst ev = Some n))"
proof -
  let ?named = "format env (branch_pattern cfg (branch_type_map ut))
                  [(''timestamp'', clock env (world m)),
                   (''description'', replace_spaces (lower d))]"
  have stub: "grows (mutation_ok cfg ?named) m
                (snd (process_update_with no_guard env cfg ut files d m))"
    by (rule process_update_with_spec [OF quiet_guard_none])
  have real: "grows (mutation_ok cfg ?named) m
                (snd (process_update_with (ensure_not_on_main env cfg) env cfg ut files d m))"
    by (rule process_update_with_spec [OF quiet_guard_ensure])
  show ?thesis
    using issued_of_grows [OF stub] issued_of_grows [OF real]
    by (auto simp: mutation_ok_def)
qed

theorem push_check_alone_witness:
  "(Some ''feature/20240101-120000-fix-the-readme'',
      [''git'', ''push'', ''-u'', ''origin'', ''feature/20240101-120000-fix-the-readme''])
     \<in> set (issued (init_manager sim_repo)
              (snd (process_update_with no_guard sim_env sim_config ''feature'' [''README.md'']
                      ''Fix The Readme'' (init_manager sim_repo))))
   \<and> is_push [''git'', ''push'', ''-u'', ''origin'', ''feature/20240101-120000-fix-the-readme'']
   \<and> \<not> is_protected sim_config (Some ''feature/20240101-120000-fix-the-readme'')"
proof -
  have mem: "(Some ''feature/20240101-120000-fix-the-readme'',
      [''git'', ''push'', ''-u'', ''origin'', ''feature/20240101-120000-fix-the-readme''])
     \<in> set (issued (init_manager sim_repo)
              (snd (process_update_with no_guard sim_env sim_config ''feature'' [''README.md'']
                      ''Fix The Readme'' (init_manager sim_repo))))"
    by code_simp
  have push: "is_push [''git'', ''push'', ''-u'', ''origin'', ''feature/20240101-120000-fix-the-readme'']"
    by (simp add: is_push_def)
  show ?thesis
    using push_check_alone [where m = "init_manager sim_repo" and env = sim_env
        and cfg = sim_config and ut = "''feature''" and files = "[''README.md'']"
        and d = "''Fix The Readme''"] mem push
    by fastforce
qed

text \<open>
  The claim as stated fails: with the guard stubbed, the template \<^verbatim>\<open>{description}\<close> and
  the description \<^verbatim>\<open>Main\<close>, the commit is started while \<^verbatim>\<open>current_branch\<close> is \<^verbatim>\<open>main\<close>
  and lands on \<^verbatim>\<open>main\<close>; only the push that follows is refused.
\<close>

theorem stub_commit_on_protected_counterexample:
  "(Some ''main'', [''git'', ''commit'', ''-m'', ''feature(core): Main''])
     \<in> set (issued (init_manager sim_repo)
              (snd (process_update_with no_guard sim_env named_config ''feature''
                      [''README.md''] ''Main'' (init_manager sim_repo))))
   \<and> is_commit [''git'', ''commit'', ''-m'', ''feature(core): Main'']
   \<and> is_protected named_config (Some ''main'')
   \<and> sim_commits (world (snd (process_update_with no_guard sim_env named_config ''feature''
                      [''README.md''] ''Main'' (init_manager sim_repo))))
       = [(''main'', ''feature(core): Main'')]"
  by code_simp

subsection \<open>The recorded branch\<close>

lemma initialize_repository_current_branch:
  "current_branch (snd (initialize_repository env cfg path m)) = current_branch m"
  by (simp add: initialize_repository_def subprocess_run_eq ensure_current_branch Let_def
           split: proc_outcome.splits)

text \<open>
  C5, as the code has it. \<^verbatim>\<open>current_branch\<close> is unset after construction and is assigned
  by \<^verbatim>\<open>create_feature_branch\<close> only, which on normal return stores the name it built from
  the naming template. The guard leaves it as it is, also when it creates the escape
  branch, and so do \<^verbatim>\<open>initialize_repository\<close>, \<^verbatim>\<open>commit_changes\<close>, \<^verbatim>\<open>push_branch\<close> and
  \<^verbatim>\<open>create_pull_request\<close>. It therefore names a protected branch only if the template
  expands to a protected name.
\<close>

theorem current_branch_updates:
  "current_branch (init_manager w) = None
   \<and> current_branch (snd (ensure_not_on_main env cfg m)) = current_branch m
   \<and> current_branch (snd (initialize_repository env cfg path m)) = current_branch m
   \<and> current_branch (snd (commit_changes env cfg files ct sc d m)) = current_branch m
   \<and> current_branch (snd (push_branch env cfg su m)) = current_branch m
   \<and> current_branch (snd (create_pull_request env cfg title body labels m)) = current_branch m
   \<and> current_branch (snd (create_feature_branch env cfg bt d m))
       = (case fst (create_feature_branch env cfg bt d m) of
            Inr n \<Rightarrow> Some n | Inl e \<Rightarrow> current_branch m)
   \<and> (\<forall>n. fst (create_feature_branch env cfg bt d m) = Inr n \<longrightarrow>
          format env (branch_pattern cfg bt)
            [(''timestamp'', clock env (world m)),
             (''description'', replace_spaces (lower d))] = Inr n)"
  using commit_changes_with_spec [OF quiet_guard_ensure, of env cfg env cfg files ct sc d m]
    push_branch_spec [of env cfg su m] create_pull_request_spec [of env cfg title body labels m]
    create_feature_branch_spec [of m env cfg bt d] create_feature_branch_name [of env cfg bt d m]
  by (simp add: init_manager_def ensure_current_branch initialize_repository_current_branch
        commit_changes_def)

theorem current_branch_updates_witness:
  "fst (create_feature_branch sim_env sim_config ''docs'' ''Fix The Readme''
          (init_manager sim_repo)) = Inr ''docs/20240101-120000-fix-the-readme''
   \<and> format sim_env (branch_pattern sim_config ''docs'')
         [(''timestamp'', clock sim_env (world (init_manager sim_repo))),
          (''description'', replace_spaces (lower ''Fix The Readme''))]
       = Inr ''docs/20240101-120000-fix-the-readme''
   \<and> current_branch (snd (create_feature_branch sim_env sim_config ''docs'' ''Fix The Readme''
          (init_manager sim_repo))) = Some ''docs/20240101-120000-fix-the-readme''"
proof -
  have r: "fst (create_feature_branch sim_env sim_config ''docs'' ''Fix The Readme''
          (init_manager sim_repo)) = Inr ''docs/20240101-120000-fix-the-readme''"
    by code_simp
  show ?thesis
    using current_branch_updates [where env = sim_env and cfg = sim_config and bt = "''docs''"
        and d = "''Fix The Readme''" and m = "init_manager sim_repo" and w = sim_repo
        and path = "[]" and files = "[]" and ct = "[]" and sc = "[]" and su = True
        and title = "[]" and body = "[]" and labels = None] r
    by simp
qed

text \<open>
  The claim as stated fails: on a working copy checked out on \<^verbatim>\<open>main\<close>, the guard
  creates and checks out the escape branch, and \<^verbatim>\<open>current_branch\<close> is still unset.
\<close>

theorem escape_branch_not_recorded_counterexample:
  "sim_head (world (snd (ensure_not_on_main sim_env sim_config (init_manager sim_repo))))
     = ''work/20240101-120000''
   \<and> fst (ensure_not_on_main sim_env sim_config (init_manager sim_repo)) = Inr ()
   \<and> current_branch (snd (ensure_not_on_main sim_env sim_config (init_manager sim_repo))) = None"
  by code_simp

subsection \<open>Git failures are swallowed\<close>

lemma git_present_fst:
  "git_present env \<Longrightarrow>
     \<exists>rc out err. fst (exec env cwd (''git'' # c) w) = Exited rc out err"
  by (cases "fst (exec env cwd (''git'' # c) w)") (auto simp: git_present_def)

lemma run_git_command_present:
  "git_present env \<Longrightarrow>
     \<exists>r. run_git_command env c check m = (Inr r, git_step env c m)"
  using git_present_fst [of env "repo_path m" c "world m"]
  by (auto simp: run_git_command_eq)

lemma history_issued: "grows P m m' \<Longrightarrow> history m' = history m @ issued m m'"
  by (auto simp: grows_def issued_def)

lemma ensure_present:
  "git_present env \<Longrightarrow> fst (ensure_not_on_main env cfg m) = Inr ()"
proof -
  assume gp: "git_present env"
  obtain r where r: "run_git_command env [''branch'', ''--show-current''] True m
      = (Inr r, git_step env [''branch'', ''--show-current''] m)"
    using run_git_command_present [OF gp] by blast
  obtain rc out err where t: "r = (rc, out, err)" by (cases r)
  obtain r' where r': "run_git_command env [''checkout'', ''-b'', ''work/'' @ clock env (world (git_step env [''branch'', ''--show-current''] m))] True (git_step env [''branch'', ''--show-current''] m)
      = (Inr r', git_step env [''checkout'', ''-b'', ''work/'' @ clock env (world (git_step env [''branch'', ''--show-current''] m))] (git_step env [''branch'', ''--show-current''] m))"
    using run_git_command_present [OF gp] by blast
  show ?thesis
    unfolding ensure_not_on_main_def r t using r' by (simp add: Let_def)
qed

lemma stage_files_present:
  "git_present env \<Longrightarrow>
     fst (stage_files env files m) = Inr ()
     \<and> history (snd (stage_files env files m))
         = history m @ map (\<lambda>f. (current_branch m, [''git'', ''add'', f])) files"
proof (induction files arbitrary: m)
  case Nil
  show ?case by simp
next
  case (Cons f fs)
  obtain r where r: "run_git_command env [''add'', f] True m = (Inr r, git_step env [''add'', f] m)"
    using run_git_command_present [OF Cons.prems] by blast
  show ?case
    using Cons.IH [OF Cons.prems, of "git_step env [''add'', f] m"] by (simp add: r)
qed


lemma issued_eqI: "history m' = history m @ xs \<Longrightarrow> issued m m' = xs"
  by (simp add: issued_def)

lemma commit_changes_present:
  assumes gp: "git_present env"
    and fm: "format env (commit_format cfg)
               [(''type'', ct), (''scope'', sc), (''description'', d)] = Inr msg"
  shows "fst (commit_changes env cfg files ct sc d m) = Inr ()
     \<and> current_branch (snd (commit_changes env cfg files ct sc d m)) = current_branch m
     \<and> issued m (snd (commit_changes env cfg files ct sc d m))
         = issued m (snd (ensure_not_on_main env cfg m))
           @ map (\<lambda>f. (current_branch m, [''git'', ''add'', f])) files
           @ [(current_branch m, [''git'', ''commit'', ''-m'', msg])]"
proof -
  obtain m1 where e: "ensure_not_on_main env cfg m = (Inr (), m1)"
    using ensure_present [OF gp, of cfg m] by (cases "ensure_not_on_main env cfg m") simp
  have cb1: "current_branch m1 = current_branch m"
    using ensure_current_branch [of env cfg m] e by simp
  have h1: "history m1 = history m @ issued m m1"
    using history_issued [OF ensure_grows [of m env cfg]] e by simp
  obtain m2 where s: "stage_files env files m1 = (Inr (), m2)"
    using stage_files_present [OF gp, of files m1] by (cases "stage_files env files m1") simp
  have h2: "history m2 = history m1 @ map (\<lambda>f. (current_branch m, [''git'', ''add'', f])) files"
    using stage_files_present [OF gp, of files m1] s cb1 by simp
  have cb2: "current_branch m2 = current_branch m"
    using stage_files_current_branch [of env files m1] s cb1 by simp
  obtain r where c: "run_git_command env [''commit'', ''-m'', msg] True m2
      = (Inr r, git_step env [''commit'', ''-m'', msg] m2)"
    using run_git_command_present [OF gp] by blast
  have res: "commit_changes env cfg files ct sc d m = (Inr (), git_step env [''commit'', ''-m'', msg] m2)"
    unfolding commit_changes_def commit_changes_with_def e prod.case sum.case s fm c
    by (rule refl)
  have "issued m (git_step env [''commit'', ''-m'', msg] m2)
         = issued m m1 @ map (\<lambda>f. (current_branch m, [''git'', ''add'', f])) files
           @ [(current_branch m, [''git'', ''commit'', ''-m'', msg])]"
  proof (rule issued_eqI)
    show "history (git_step env [''commit'', ''-m'', msg] m2)
            = history m @ issued m m1 @ map (\<lambda>f. (current_branch m, [''git'', ''add'', f])) files
              @ [(current_branch m, [''git'', ''commit'', ''-m'', msg])]"
      using h1 h2 cb2 by simp
  qed
  then show ?thesis
    using res cb2 e by simp
qed

text \<open>
  C3, as the code has it. \<^verbatim>\<open>commit_changes\<close> raises no error of its own. A \<^verbatim>\<open>git add\<close> of
  a path that does not exist and a \<^verbatim>\<open>git commit\<close> with nothing staged fail inside
  \<^verbatim>\<open>_run_git_command\<close>, which logs the failure and returns the exit code, and the exit
  code is ignored. With git installed and a commit format that formats, \<^verbatim>\<open>commit_changes\<close>
  returns normally after the guard, one \<^verbatim>\<open>git add\<close> per path in order, and
  \<^verbatim>\<open>git commit -m\<close>; for an empty path list no \<^verbatim>\<open>add\<close> is run and the commit command
  is run all the same. \<^verbatim>\<open>current_branch\<close> is unchanged.
\<close>

theorem commit_changes_swallows_failures:
  assumes gp: "git_present env"
    and fm: "format env (commit_format cfg)
               [(''type'', ct), (''scope'', sc), (''description'', d)] = Inr msg"
  shows "fst (commit_changes env cfg files ct sc d m) = Inr ()
     \<and> current_branch (snd (commit_changes env cfg files ct sc d m)) = current_branch m
     \<and> issued m (snd (commit_changes env cfg files ct sc d m))
         = issued m (snd (ensure_not_on_main env cfg m))
           @ map (\<lambda>f. (current_branch m, [''git'', ''add'', f])) files
           @ [(current_branch m, [''git'', ''commit'', ''-m'', msg])]"
  using gp fm by (rule commit_changes_present)

theorem commit_changes_swallows_failures_witness:
  "git_present sim_env
   \<and> format sim_env (commit_format sim_config)
         [(''type'', ''feature''), (''scope'', ''core''), (''description'', ''x'')]
       = Inr ''feature(core): x''
   \<and> fst (commit_changes sim_env sim_config [''missing.txt''] ''feature'' ''core'' ''x''
            (init_manager sim_repo)) = Inr ()
   \<and> current_branch (snd (commit_changes sim_env sim_config [''missing.txt''] ''feature''
            ''core'' ''x'' (init_manager sim_repo))) = None"
proof -
  have fm: "format sim_env (commit_format sim_config)
         [(''type'', ''feature''), (''scope'', ''core''), (''description'', ''x'')]
       = Inr ''feature(core): x''"
    by code_simp
  show ?thesis
    using commit_changes_swallows_failures [OF git_present_sim fm, of "[''missing.txt'']"
        "init_manager sim_repo"] git_present_sim fm
    by (simp add: init_manager_def)
qed

text \<open>
  The claim as stated fails: staging a path that is not in the working copy, and
  committing an empty path list, both return normally; in the second run the commit
  command is started, and the guard has moved the working copy off \<^verbatim>\<open>main\<close>.
\<close>

theorem commit_without_error_counterexample:
  "''missing.txt'' \<notin> set (sim_files sim_repo)
   \<and> fst (commit_changes sim_env sim_config [''missing.txt''] ''feature'' ''core'' ''x''
            (init_manager sim_repo)) = Inr ()
   \<and> fst (commit_changes sim_env sim_config [] ''feature'' ''core'' ''x''
            (init_manager sim_repo)) = Inr ()
   \<and> (None, [''git'', ''commit'', ''-m'', ''feature(core): x''])
        \<in> set (history (snd (commit_changes sim_env sim_config [] ''feature'' ''core'' ''x''
                              (init_manager sim_repo))))
   \<and> sim_head (world (snd (commit_changes sim_env sim_config [] ''feature'' ''core'' ''x''
                              (init_manager sim_repo)))) = ''work/20240101-120000''
   \<and> sim_head sim_repo = ''main''"
  by code_simp

subsection \<open>Creating the branch\<close>

lemma plain_format_fallback:
  "plain_format ''feature/{timestamp}-{description}''
     [(''timestamp'', ts), (''description'', s)] = Inr (''feature/'' @ ts @ ''-'' @ s)"
  by (simp add: plain_format_def)

lemma create_feature_branch_present:
  assumes gp: "git_present env"
    and fm: "format env (branch_pattern cfg bt)
               [(''timestamp'', clock env (world m)),
                (''description'', replace_spaces (lower d))] = Inr name"
  shows "create_feature_branch env cfg bt d m
      = (Inr name, (git_step env [''checkout'', ''-b'', name, ''origin/main'']
                      (git_step env [''fetch'', ''origin''] m))
                     \<lparr>current_branch := Some name\<rparr>)"
proof -
  obtain r1 where f: "run_git_command env [''fetch'', ''origin''] True m
      = (Inr r1, git_step env [''fetch'', ''origin''] m)"
    using run_git_command_present [OF gp] by blast
  let ?m1 = "git_step env [''fetch'', ''origin''] m"
  obtain r2 where c: "run_git_command env [''checkout'', ''-b'', name, ''origin/main''] True ?m1
      = (Inr r2, git_step env [''checkout'', ''-b'', name, ''origin/main''] ?m1)"
    using run_git_command_present [OF gp] by blast
  show ?thesis
    unfolding create_feature_branch_def Let_def fm sum.case f prod.case c
    by (rule refl)
qed

text \<open>
  C4, as the code has it. \<^verbatim>\<open>create_feature_branch\<close> formats the template configured
  under \<^verbatim>\<open>workflow_rules.branch_strategy\<close> for the category, or
  \<^verbatim>\<open>feature/{timestamp}-{description}\<close> when there is none, with the timestamp and the
  description lowercased and its spaces replaced by hyphens; with plain named fields the
  fallback gives \<^verbatim>\<open>feature/<timestamp>-<slug>\<close>. It runs \<^verbatim>\<open>git fetch origin\<close> and then
  \<^verbatim>\<open>git checkout -b\<close> of the new name from \<^verbatim>\<open>origin/main\<close>, whatever default branch is
  configured (that is the remote's default branch when it is configured as \<^verbatim>\<open>main\<close>). With
  git installed and a template that formats it returns the name normally and records it
  as \<^verbatim>\<open>current_branch\<close>, whatever the exit codes of the fetch and of the checkout: there is
  no error for a failed branch creation.
\<close>

theorem create_feature_branch_returns:
  assumes gp: "git_present env"
    and fm: "format env (branch_pattern cfg bt)
               [(''timestamp'', clock env (world m)),
                (''description'', replace_spaces (lower d))] = Inr name"
  shows "fst (create_feature_branch env cfg bt d m) = Inr name
     \<and> current_branch (snd (create_feature_branch env cfg bt d m)) = Some name
     \<and> issued m (snd (create_feature_branch env cfg bt d m))
         = [(current_branch m, [''git'', ''fetch'', ''origin'']),
            (current_branch m, [''git'', ''checkout'', ''-b'', name, ''origin/main''])]
     \<and> (default_branch cfg = ''main'' \<longrightarrow>
          issued m (snd (create_feature_branch env cfg bt d m))
            = [(current_branch m, [''git'', ''fetch'', ''origin'']),
               (current_branch m,
                [''git'', ''checkout'', ''-b'', name, ''origin/'' @ default_branch cfg])])
     \<and> (map_of (branch_strategy cfg) (bt @ ''_pattern'') = None \<longrightarrow>
          format env ''feature/{timestamp}-{description}''
            [(''timestamp'', clock env (world m)),
             (''description'', replace_spaces (lower d))] = Inr name)
     \<and> (\<forall>p. map_of (branch_strategy cfg) (bt @ ''_pattern'') = Some p \<longrightarrow>
          format env p
            [(''timestamp'', clock env (world m)),
             (''description'', replace_spaces (lower d))] = Inr name)
     \<and> (map_of (branch_strategy cfg) (bt @ ''_pattern'') = None \<and> format env = plain_format
          \<longrightarrow> name = ''feature/'' @ clock env (world m) @ ''-'' @ replace_spaces (lower d))"
proof -
  let ?m1 = "git_step env [''fetch'', ''origin''] m"
  have res: "create_feature_branch env cfg bt d m
      = (Inr name, (git_step env [''checkout'', ''-b'', name, ''origin/main''] ?m1)
                     \<lparr>current_branch := Some name\<rparr>)"
    using gp fm by (rule create_feature_branch_present)
  have iss: "issued m ((git_step env [''checkout'', ''-b'', name, ''origin/main''] ?m1)
                     \<lparr>current_branch := Some name\<rparr>)
      = [(current_branch m, [''git'', ''fetch'', ''origin'']),
         (current_branch m, [''git'', ''checkout'', ''-b'', name, ''origin/main''])]"
    by (rule issued_eqI) simp
  have none: "map_of (branch_strategy cfg) (bt @ ''_pattern'') = None \<Longrightarrow>
      format env ''feature/{timestamp}-{description}''
        [(''timestamp'', clock env (world m)),
         (''description'', replace_spaces (lower d))] = Inr name"
    using fm by (simp add: branch_pattern_def)
  have some: "map_of (branch_strategy cfg) (bt @ ''_pattern'') = Some p \<Longrightarrow>
      format env p
        [(''timestamp'', clock env (world m)),
         (''description'', replace_spaces (lower d))] = Inr name" for p
    using fm by (simp add: branch_pattern_def)
  have plain: "map_of (branch_strategy cfg) (bt @ ''_pattern'') = None \<Longrightarrow>
      format env = plain_format \<Longrightarrow>
      name = ''feature/'' @ clock env (world m) @ ''-'' @ replace_spaces (lower d)"
    using none plain_format_fallback [of "clock env (world m)" "replace_spaces (lower d)"]
    by simp
  show ?thesis
    using res iss none some plain by simp
qed

theorem create_feature_branch_returns_witness:
  "git_present sim_env
   \<and> format sim_env (branch_pattern sim_config ''feature'')
         [(''timestamp'', clock sim_env (world (init_manager sim_repo))),
          (''description'', replace_spaces (lower ''Fix The Readme''))]
       = Inr ''feature/20240101-120000-fix-the-readme''
   \<and> default_branch sim_config = ''main''
   \<and> fst (create_feature_branch sim_env sim_config ''feature'' ''Fix The Readme''
            (init_manager sim_repo)) = Inr ''feature/20240101-120000-fix-the-readme''
   \<and> issued (init_manager sim_repo)
         (snd (create_feature_branch sim_env sim_config ''feature'' ''Fix The Readme''
            (init_manager sim_repo)))
       = [(None, [''git'', ''fetch'', ''origin'']),
          (None, [''git'', ''checkout'', ''-b'', ''feature/20240101-120000-fix-the-readme'',
                  ''origin/main''])]"
proof -
  have fm: "format sim_env (branch_pattern sim_config ''feature'')
         [(''timestamp'', clock sim_env (world (init_manager sim_repo))),
          (''description'', replace_spaces (lower ''Fix The Readme''))]
       = Inr ''feature/20240101-120000-fix-the-readme''"
    by code_simp
  have db: "default_branch sim_config = ''main''"
    by (simp add: sim_config_def)
  show ?thesis
    using create_feature_branch_returns [OF git_present_sim fm] git_present_sim fm db
    by (simp add: init_manager_def)
qed

text \<open>
  The claim as stated fails. Without network the fetch exits with an error, and with the
  branch name already taken the checkout does; both calls return the name normally, the
  second with the working copy still on \<^verbatim>\<open>main\<close>. With \<^verbatim>\<open>develop\<close> configured as default
  branch the new branch is still started from \<^verbatim>\<open>origin/main\<close>.
\<close>

theorem branch_creation_failure_counterexample:
  "fst (sim_exec None [''git'', ''fetch'', ''origin''] (sim_repo\<lparr>sim_online := False\<rparr>))
     = Exited 128 [] ''fatal''
   \<and> fst (create_feature_branch sim_env sim_config ''feature'' ''Fix''
            (init_manager (sim_repo\<lparr>sim_online := False\<rparr>))) = Inr ''feature/20240101-120000-fix''
   \<and> fst (create_feature_branch sim_env sim_config ''feature'' ''Fix''
            (init_manager (sim_repo\<lparr>sim_branches := [''main'', ''feature/20240101-120000-fix'']\<rparr>)))
       = Inr ''feature/20240101-120000-fix''
   \<and> sim_head (world (snd (create_feature_branch sim_env sim_config ''feature'' ''Fix''
            (init_manager (sim_repo\<lparr>sim_branches := [''main'', ''feature/20240101-120000-fix'']\<rparr>)))))
       = ''main''
   \<and> history (snd (create_feature_branch sim_env (sim_config\<lparr>default_branch := ''develop''\<rparr>)
            ''feature'' ''Fix'' (init_manager sim_repo)))
       = [(None, [''git'', ''fetch'', ''origin'']),
          (None, [''git'', ''checkout'', ''-b'', ''feature/20240101-120000-fix'', ''origin/main''])]"
  by code_simp

subsection \<open>A missing hosting CLI\<close>

lemma create_pull_request_absent:
  "gh_absent env \<Longrightarrow>
     create_pull_request env cfg title body labels m
       = (Inr None, proc_step env None [''gh'', ''--version''] m)"
  by (simp add: create_pull_request_def subprocess_run_eq gh_absent_def)

lemma push_branch_present:
  assumes gp: "git_present env"
    and cb: "current_branch m = Some name"
    and ne: "name \<noteq> []"
    and np: "name \<notin> set (protected_branches cfg)"
  shows "push_branch env cfg True m
           = (Inr (), git_step env [''push'', ''-u'', ''origin'', name] m)"
proof -
  obtain r where p: "run_git_command env [''push'', ''-u'', ''origin'', name] True m
      = (Inr r, git_step env [''push'', ''-u'', ''origin'', name] m)"
    using run_git_command_present [OF gp] by blast
  show ?thesis
    by (simp add: push_branch_def cb ne np p)
qed

lemma commit_changes_result:
  assumes gp: "git_present env"
    and fm: "format env (commit_format cfg)
               [(''type'', ct), (''scope'', sc), (''description'', d)] = Inr msg"
  shows "\<exists>m'. commit_changes env cfg files ct sc d m = (Inr (), m')
           \<and> current_branch m' = current_branch m
           \<and> (\<exists>pre. history m' = history m @ pre
                        @ [(current_branch m, [''git'', ''commit'', ''-m'', msg])])"
proof -
  let ?m' = "snd (commit_changes env cfg files ct sc d m)"
  have c: "fst (commit_changes env cfg files ct sc d m) = Inr ()"
    "current_branch ?m' = current_branch m"
    "issued m ?m' = issued m (snd (ensure_not_on_main env cfg m))
           @ map (\<lambda>f. (current_branch m, [''git'', ''add'', f])) files
           @ [(current_branch m, [''git'', ''commit'', ''-m'', msg])]"
    using commit_changes_present [OF gp fm, of files m] by simp_all
  have g: "grows (no_push m) m ?m'"
    unfolding commit_changes_def
    using commit_changes_with_spec [OF quiet_guard_ensure] by blast
  have h: "history ?m' = history m @ issued m ?m'"
    using g by (rule history_issued)
  have "commit_changes env cfg files ct sc d m = (Inr (), ?m')"
    using c(1) by (metis prod.collapse)
  moreover have "\<exists>pre. history ?m' = history m @ pre
                        @ [(current_branch m, [''git'', ''commit'', ''-m'', msg])]"
    using h c(3) by (metis append.assoc)
  ultimately show ?thesis
    using c(2) by blast
qed

lemma git_present_bare: "git_present bare_env"
  using git_present_sim by (simp add: git_present_def bare_env_def sim_env_def)

lemma gh_absent_bare: "gh_absent bare_env"
  by (simp add: gh_absent_def bare_env_def sim_env_def)

text \<open>
  C9. When the hosting CLI is absent, \<^verbatim>\<open>create_pull_request\<close> returns \<^verbatim>\<open>None\<close>. A run of
  \<^verbatim>\<open>process_update\<close> that gets that far (git installed, a branch name that formats, is not
  empty and not protected, a commit message that formats) returns normally, with status
  \<^verbatim>\<open>failed\<close>, no URL and the name of the branch; \<^verbatim>\<open>current_branch\<close> still names the branch, and
  after the commit nothing was run but the push and the probe for the hosting CLI: the
  branch and the commit are not rolled back.
\<close>

theorem missing_hosting_cli_fails_softly:
  assumes gp: "git_present env"
    and gh: "gh_absent env"
    and fb: "format env (branch_pattern cfg (branch_type_map ut))
               [(''timestamp'', clock env (world m)),
                (''description'', replace_spaces (lower d))] = Inr name"
    and ne: "name \<noteq> []"
    and np: "name \<notin> set (protected_branches cfg)"
    and fc: "format env (commit_format cfg)
               [(''type'', branch_type_map ut), (''scope'', determine_scope files),
                (''description'', d)] = Inr msg"
  shows "fst (create_pull_request env cfg title body labels m') = Inr None
     \<and> fst (process_update env cfg ut files d m)
         = Inr \<lparr>branch = name, commit_type = branch_type_map ut, pr_url = None,
                status = ''failed''\<rparr>
     \<and> current_branch (snd (process_update env cfg ut files d m)) = Some name
     \<and> (\<exists>guard_and_adds.
          issued m (snd (process_update env cfg ut files d m))
            = [(current_branch m, [''git'', ''fetch'', ''origin'']),
               (current_branch m, [''git'', ''checkout'', ''-b'', name, ''origin/main''])]
              @ guard_and_adds
              @ [(Some name, [''git'', ''commit'', ''-m'', msg]),
                 (Some name, [''git'', ''push'', ''-u'', ''origin'', name]),
                 (Some name, [''gh'', ''--version''])])"
proof -
  let ?bt = "branch_type_map ut"
  let ?m1 = "(git_step env [''checkout'', ''-b'', name, ''origin/main'']
                      (git_step env [''fetch'', ''origin''] m))
                     \<lparr>current_branch := Some name\<rparr>"
  have c1: "create_feature_branch env cfg ?bt d m = (Inr name, ?m1)"
    using gp fb by (rule create_feature_branch_present)
  have h1: "history ?m1 = history m @ [(current_branch m, [''git'', ''fetch'', ''origin'']),
               (current_branch m, [''git'', ''checkout'', ''-b'', name, ''origin/main''])]"
    by simp
  have cb1: "current_branch ?m1 = Some name" by simp
  obtain m2 pre where c2: "commit_changes env cfg files ?bt (determine_scope files) d ?m1 = (Inr (), m2)"
    and cb2: "current_branch m2 = Some name"
    and h2: "history m2 = history ?m1 @ pre @ [(Some name, [''git'', ''commit'', ''-m'', msg])]"
    using commit_changes_result [OF gp fc, of files ?m1] cb1 by auto
  let ?m3 = "git_step env [''push'', ''-u'', ''origin'', name] m2"
  have c3: "push_branch env cfg True m2 = (Inr (), ?m3)"
    using gp cb2 ne np by (rule push_branch_present)
  let ?m4 = "proc_step env None [''gh'', ''--version''] ?m3"
  have c4: "create_pull_request env cfg t b l ?m3 = (Inr None, ?m4)" for t b l
    using gh by (rule create_pull_request_absent)
  have ct: "(if ?bt \<noteq> ''docs'' then ?bt else ''docs'') = ?bt" by simp
  have res: "process_update env cfg ut files d m
      = (Inr \<lparr>branch = name, commit_type = ?bt, pr_url = None, status = ''failed''\<rparr>, ?m4)"
    unfolding process_update_def process_update_with_def Let_def ct c1 prod.case sum.case
      c2 [unfolded commit_changes_def] c3 c4
    by (simp add: status_of_def)
  have "history ?m4 = history m @ ([(current_branch m, [''git'', ''fetch'', ''origin'']),
               (current_branch m, [''git'', ''checkout'', ''-b'', name, ''origin/main''])]
              @ pre
              @ [(Some name, [''git'', ''commit'', ''-m'', msg]),
                 (Some name, [''git'', ''push'', ''-u'', ''origin'', name]),
                 (Some name, [''gh'', ''--version''])])"
    using h2 cb2 by simp
  then have iss: "issued m ?m4 = [(current_branch m, [''git'', ''fetch'', ''origin'']),
               (current_branch m, [''git'', ''checkout'', ''-b'', name, ''origin/main''])]
              @ pre
              @ [(Some name, [''git'', ''commit'', ''-m'', msg]),
                 (Some name, [''git'', ''push'', ''-u'', ''origin'', name]),
                 (Some name, [''gh'', ''--version''])]"
    by (rule issued_eqI)
  have pr: "fst (create_pull_request env cfg title body labels m') = Inr None"
    using create_pull_request_absent [OF gh] by simp
  show ?thesis
    unfolding res using pr iss cb2 by auto
qed

theorem missing_hosting_cli_fails_softly_witness:
  "git_present bare_env \<and> gh_absent bare_env
   \<and> fst (process_update bare_env sim_config ''feature'' [''README.md''] ''Fix The Readme''
            (init_manager sim_repo))
       = Inr \<lparr>branch = ''feature/20240101-120000-fix-the-readme'', commit_type = ''feature'',
              pr_url = None, status = ''failed''\<rparr>
   \<and> sim_commits (world (snd (process_update bare_env sim_config ''feature'' [''README.md'']
            ''Fix The Readme'' (init_manager sim_repo))))
       = [(''feature/20240101-120000-fix-the-readme'', ''feature(core): Fix The Readme'')]
   \<and> sim_branches (world (snd (process_update bare_env sim_config ''feature'' [''README.md'']
            ''Fix The Readme'' (init_manager sim_repo))))
       = [''feature/20240101-120000-fix-the-readme'', ''main'']"
proof -
  have fb: "format bare_env (branch_pattern sim_config (branch_type_map ''feature''))
               [(''timestamp'', clock bare_env (world (init_manager sim_repo))),
                (''description'', replace_spaces (lower ''Fix The Readme''))]
             = Inr ''feature/20240101-120000-fix-the-readme''"
    by code_simp
  have ne: "''feature/20240101-120000-fix-the-readme'' \<noteq> []"
    by simp
  have np: "''feature/20240101-120000-fix-the-readme'' \<notin> set (protected_branches sim_config)"
    by (simp add: sim_config_def)
  have fc: "format bare_env (commit_format sim_config)
               [(''type'', branch_type_map ''feature''),
                (''scope'', determine_scope [''README.md'']),
                (''description'', ''Fix The Readme'')] = Inr ''feature(core): Fix The Readme''"
    by code_simp
  have w: "sim_commits (world (snd (process_update bare_env sim_config ''feature'' [''README.md'']
            ''Fix The Readme'' (init_manager sim_repo))))
       = [(''feature/20240101-120000-fix-the-readme'', ''feature(core): Fix The Readme'')]
     \<and> sim_branches (world (snd (process_update bare_env sim_config ''feature'' [''README.md'']
            ''Fix The Readme'' (init_manager sim_repo))))
       = [''feature/20240101-120000-fix-the-readme'', ''main'']"
    by code_simp
  have bt: "branch_type_map ''feature'' = ''feature''"
    by (simp add: branch_type_map_def)
  show ?thesis
    using missing_hosting_cli_fails_softly [OF git_present_bare gh_absent_bare fb ne np fc]
      git_present_bare gh_absent_bare w bt
    by simp
qed

subsection \<open>The repository path\<close>









section \<open>Properties of the repository monitor\<close>

subsection \<open>Ignored paths\<close>

lemma should_ignore_file_iff:
  "should_ignore_file filepath
     \<longleftrightarrow> (\<exists>pattern \<in> set ignore_patterns. is_substring pattern (str_path filepath))"
  by (simp add: should_ignore_file_def list_ex_iff)

text \<open>
  C7. An event for a path that contains one of the ignore patterns (the path as
  \<^verbatim>\<open>str(Path(event.src_path))\<close> renders it) returns at once from \<^verbatim>\<open>on_modified\<close>, and so from
  \<^verbatim>\<open>on_created\<close>: the whole monitor, the path-to-hash mapping and the pending sets in
  particular, is unchanged.
\<close>

theorem ignored_paths_leave_state:
  "pattern \<in> set ignore_patterns \<Longrightarrow>
   is_substring pattern (str_path (Path (src_path event))) \<Longrightarrow>
     on_modified env event s = (Inr (), s) \<and> on_created env event s = (Inr (), s)"
  using should_ignore_file_iff [of "Path (src_path event)"]
  by (auto simp: on_modified_def on_created_def Let_def)

theorem ignored_paths_leave_state_witness:
  "''.git/'' \<in> set ignore_patterns
   \<and> is_substring ''.git/''
        (str_path (Path (src_path \<lparr>is_directory = False, src_path = ''/repo/.git/config''\<rparr>)))
   \<and> on_modified sim_env \<lparr>is_directory = False, src_path = ''/repo/.git/config''\<rparr> busy_monitor
       = (Inr (), busy_monitor)"
proof -
  have p: "''.git/'' \<in> set ignore_patterns"
    by (simp add: ignore_patterns_def)
  have m: "is_substring ''.git/''
        (str_path (Path (src_path \<lparr>is_directory = False, src_path = ''/repo/.git/config''\<rparr>)))"
    by code_simp
  show ?thesis
    using ignored_paths_leave_state [OF p m, of sim_env busy_monitor] p m by simp
qed

subsection \<open>Classification\<close>

lemma is_substring_sublist: "is_substring p s = sublist p s"
  by (induction s) (simp_all add: sublist_Cons_right)

text \<open>
  C8. For a path below the repository, the category is decided on the lowercased relative
  path, first match first: \<^verbatim>\<open>docs\<close> when it contains \<^verbatim>\<open>readme\<close>, \<^verbatim>\<open>doc\<close>, \<^verbatim>\<open>.md\<close> or
  \<^verbatim>\<open>license\<close>; otherwise \<^verbatim>\<open>config\<close> when it contains \<^verbatim>\<open>config\<close>, \<^verbatim>\<open>.yaml\<close>, \<^verbatim>\<open>.yml\<close>,
  \<^verbatim>\<open>.json\<close> or \<^verbatim>\<open>.ini\<close>; otherwise \<^verbatim>\<open>feature\<close>, whether or not it contains \<^verbatim>\<open>.sh\<close>,
  \<^verbatim>\<open>.py\<close> or \<^verbatim>\<open>script\<close>.
\<close>

theorem classification_first_match:
  assumes rel: "relative_to filepath repo = Inr rel_path"
  shows "categorize_file repo filepath
      = Inr (if \<exists>doc \<in> {''readme'', ''doc'', ''.md'', ''license''}.
                  sublist doc (lower (str_path rel_path))
             then ''docs''
             else if \<exists>cfg \<in> {''config'', ''.yaml'', ''.yml'', ''.json'', ''.ini''}.
                       sublist cfg (lower (str_path rel_path))
             then ''config''
             else if \<exists>script \<in> {''.sh'', ''.py'', ''script''}.
                       sublist script (lower (str_path rel_path))
             then ''feature''
             else ''feature'')"
  by (simp add: categorize_file_def rel categorize_path_str_def is_substring_sublist)

theorem classification_first_match_witness:
  "relative_to (Path ''/repo/Docs/README.MD'') (Path ''/repo'') = Inr ([], [''Docs'', ''README.MD''])
   \<and> categorize_file (Path ''/repo'') (Path ''/repo/Docs/README.MD'') = Inr ''docs''"
proof -
  have rel: "relative_to (Path ''/repo/Docs/README.MD'') (Path ''/repo'')
               = Inr ([], [''Docs'', ''README.MD''])"
    by code_simp
  have "is_substring ''readme'' (lower (str_path ([], [''Docs'', ''README.MD''])))"
    by code_simp
  then have hit: "sublist ''readme'' (lower (str_path ([], [''Docs'', ''README.MD''])))"
    by (simp only: is_substring_sublist)
  show ?thesis
    using classification_first_match [OF rel] rel hit by auto
qed

subsection \<open>Flushing\<close>






lemma cleared_empty [simp]: "cleared {} pending = pending"
  by (induction pending) (auto simp: cleared_def)















end
